theory Spec2Isabelle
  imports Complex_Main
begin

section \<open>Data model of the reCAPTCHA Lambda authorizer (src/index.js)\<close>

text \<open>
  Errors are values. \<open>SyntaxError\<close> and \<open>TypeError\<close> are the two exceptions the JavaScript
  runtime itself can raise in the handler (\<open>JSON.parse\<close> on text that is not JSON, a
  property read on \<open>undefined\<close> or \<open>null\<close>); \<open>Service_error\<close> is an error object handed
  over by a collaborator (the SSM client, the HTTPS request), with its message.
\<close>

datatype js_error = SyntaxError | TypeError | Service_error string

text \<open>
  The values \<open>JSON.parse\<close> can return. A number carries the value of the parsed double; an
  object keeps its members in textual order, duplicates included.
\<close>

datatype json =
    JNull
  | JBool bool
  | JNumber real
  | JString string
  | JArray "json list"
  | JObject "(string \<times> json) list"

text \<open>
  A body chunk \<open>d\<close> handed to the \<open>'data'\<close> listener is a Buffer. The handler does one
  thing with it, \<open>JSON.parse(d)\<close>, so a chunk is represented by what \<open>JSON.parse\<close> makes
  of its text: either the text is not JSON, or it denotes a JSON value.
\<close>

datatype chunk = Not_json | Json_text json

text \<open>The invocation event of a TOKEN authorizer: \<open>None\<close> is an absent field.\<close>

record event =
  authorizationToken :: "string option"
  methodArn :: string

text \<open>The answer of \<open>SSM.getParameter\<close>: \<open>data.Parameter.Value\<close>.\<close>

record ssm_parameter =
  Value :: string

record ssm_data =
  Parameter :: "ssm_parameter option"

text \<open>
  The \<open>options\<close> object given to \<open>https.request\<close>; \<open>http_method\<close> is its
  \<open>method\<close> member.
\<close>

record request_options =
  hostname :: string
  port :: nat
  path :: string
  http_method :: string
  headers :: "(string \<times> string) list"

text \<open>
  What a request does after \<open>req.end()\<close>, in order of occurrence: an \<open>'error'\<close> event of
  the request, or a response with its status code and the chunks of its \<open>'data'\<close> events.
  The empty list is a request on which nothing ever happens (the source sets no timeout).
\<close>

datatype http_event = Req_error js_error | Response nat "chunk list"

text \<open>The policy document of \<open>genPolicy\<close> and the response object of the handler.\<close>

record statement =
  Action :: string
  Effect :: string
  Resource :: string

record policy =
  Version :: string
  Statement :: "statement list"

record auth_context =
  simpleAuth :: bool

record auth_response =
  policyDocument :: policy
  context_map :: auth_context

text \<open>
  The arguments of one call of the Lambda callback: \<open>callback('Unauthorized')\<close> passes an
  error and nothing else, \<open>callback(null, response)\<close> passes a result.
\<close>

datatype callback_args = Cb_error string | Cb_result auth_response

datatype log_entry = Log_statusCode nat | Log_error js_error

text \<open>
  The effects of one invocation on the outside world, recorded in the order they happen.
\<close>

datatype effect =
    Ssm_getParameter string
  | Https_request request_options
  | Console_log log_entry
  | Callback callback_args

text \<open>
  The collaborators of the handler: the environment variables of the process, the
  parameter store behind \<open>parameterStore.getParameter\<close>, and the network behind
  \<open>https.request\<close>.
\<close>

record env =
  process_env :: "string \<Rightarrow> string option"
  getParameter :: "string \<Rightarrow> js_error + ssm_data"
  https_request :: "request_options \<Rightarrow> http_event list"

text \<open>
  A promise is fulfilled, rejected, or never settled. A task is a computation that extends
  the record of effects and ends in one of these three states; \<open>await\<close> continues with
  the value of a fulfilled task and passes a rejection (a thrown exception) or a pending
  state on, as an \<open>async\<close> function does.
\<close>

datatype 'a settled = Fulfilled 'a | Rejected js_error | Pending

type_synonym 'a task = "effect list \<Rightarrow> 'a settled \<times> effect list"

definition await :: "'a task \<Rightarrow> ('a \<Rightarrow> 'b task) \<Rightarrow> 'b task" where
  "await p k tr =
     (case p tr of
        (Fulfilled v, tr') \<Rightarrow> k v tr'
      | (Rejected e, tr') \<Rightarrow> (Rejected e, tr')
      | (Pending, tr') \<Rightarrow> (Pending, tr'))"

text \<open>A synchronous expression that may throw, inside the \<open>async\<close> function.\<close>

definition eval_sync :: "js_error + 'a \<Rightarrow> 'a task" where
  "eval_sync x tr = (case x of Inl e \<Rightarrow> (Rejected e, tr) | Inr v \<Rightarrow> (Fulfilled v, tr))"

section \<open>The functions of src/index.js\<close>

definition getParam :: "env \<Rightarrow> string \<Rightarrow> ssm_data task" where
  "getParam E param tr =
     (case getParameter E param of
        Inl err \<Rightarrow> (Rejected err, tr @ [Ssm_getParameter param])
      | Inr data \<Rightarrow> (Fulfilled data, tr @ [Ssm_getParameter param]))"

text \<open>\<open>x.Parameter.Value\<close>: a \<open>TypeError\<close> when \<open>x.Parameter\<close> is undefined.\<close>

definition Parameter_Value :: "ssm_data \<Rightarrow> js_error + string" where
  "Parameter_Value x = (case Parameter x of None \<Rightarrow> Inl TypeError | Some p \<Rightarrow> Inr (Value p))"

definition genPolicy :: "string \<Rightarrow> string \<Rightarrow> policy" where
  "genPolicy effect resource =
     \<lparr>Version = ''2012-10-17'',
      Statement = [\<lparr>Action = ''execute-api:Invoke'', Effect = effect, Resource = resource\<rparr>]\<rparr>"

definition options :: "string \<Rightarrow> string \<Rightarrow> string \<Rightarrow> request_options" where
  "options captcha_secret_key google_captch_verification_url token =
     (let params = ''?secret='' @ captcha_secret_key @ ''&response='' @ token
      in \<lparr>hostname = ''www.google.com'',
          port = 443,
          path = google_captch_verification_url @ params,
          http_method = ''POST'',
          headers = [(''Content-Type'', ''application/json'')]\<rparr>)"

text \<open>
  \<open>resolve\<close> and \<open>reject\<close>: the first argument is the state of the promise, the second
  the state asked for. Only a pending promise changes.
\<close>

fun settle :: "'a settled \<Rightarrow> 'a settled \<Rightarrow> 'a settled" where
  "settle Pending s = s"
| "settle (Fulfilled v) s = Fulfilled v"
| "settle (Rejected e) s = Rejected e"

text \<open>
  The listeners of \<open>verifyCaptcha\<close>, run on every event of the request whatever the state
  \<open>p\<close> of the promise: the response callback logs the status code, each \<open>'data'\<close> event
  calls \<open>resolve\<close> with its chunk, an \<open>'error'\<close> event calls \<open>reject\<close>. So the first body
  chunk or the first error settles the promise, a response without a body chunk settles
  nothing, and a response that comes after the settling event is still logged. An
  exception thrown by \<open>https.request\<close> itself, inside the executor of the promise,
  rejects the promise as an \<open>'error'\<close> event does, and is represented by one.

  The record lists the logs of the listeners for the whole list of events, and the
  effects of the handler's continuation after them. Where events follow the settling one,
  an event loop runs the continuation before their listeners; that moves those logs in
  the record and changes nothing else.
\<close>

fun on_events :: "http_event list \<Rightarrow> chunk settled \<Rightarrow> chunk task" where
  "on_events [] p tr = (p, tr)"
| "on_events (Req_error error # es) p tr = on_events es (settle p (Rejected error)) tr"
| "on_events (Response statusCode ds # es) p tr =
     on_events es (foldl (\<lambda>q d. settle q (Fulfilled d)) p ds)
       (tr @ [Console_log (Log_statusCode statusCode)])"

definition verifyCaptcha :: "env \<Rightarrow> string \<Rightarrow> string \<Rightarrow> string \<Rightarrow> chunk task" where
  "verifyCaptcha E captcha_secret_key google_captch_verification_url token tr =
     (let opts = options captcha_secret_key google_captch_verification_url token
      in on_events (https_request E opts) Pending (tr @ [Https_request opts]))"

text \<open>
  \<open>p.then(r => result = r, e => console.log('error ' + e))\<close> with \<open>var result\<close> undefined
  before: the value is the \<open>result\<close> afterwards, \<open>None\<close> for \<open>undefined\<close>.
\<close>

definition then_result :: "chunk task \<Rightarrow> chunk option task" where
  "then_result p tr =
     (case p tr of
        (Fulfilled r, tr') \<Rightarrow> (Fulfilled (Some r), tr')
      | (Rejected e, tr') \<Rightarrow> (Fulfilled None, tr' @ [Console_log (Log_error e)])
      | (Pending, tr') \<Rightarrow> (Pending, tr'))"

text \<open>
  \<open>JSON.parse(result)\<close>: \<open>undefined\<close> is converted to the text \<open>undefined\<close>, which is not
  JSON.
\<close>

fun JSON_parse :: "chunk option \<Rightarrow> js_error + json" where
  "JSON_parse None = Inl SyntaxError"
| "JSON_parse (Some Not_json) = Inl SyntaxError"
| "JSON_parse (Some (Json_text v)) = Inr v"

text \<open>
  \<open>v.success\<close> on a parsed value: a \<open>TypeError\<close> on \<open>null\<close>; the own property of an object
  (the last of duplicate members); \<open>undefined\<close> (\<open>None\<close>) on everything else, as neither
  arrays nor the wrappers of booleans, numbers and strings have such a property.
\<close>

fun success_of :: "json \<Rightarrow> js_error + json option" where
  "success_of JNull = Inl TypeError"
| "success_of (JObject members) = Inr (map_of (rev members) ''success'')"
| "success_of (JBool b) = Inr None"
| "success_of (JNumber n) = Inr None"
| "success_of (JString s) = Inr None"
| "success_of (JArray vs) = Inr None"

text \<open>The condition of \<open>if (success)\<close>: JavaScript's conversion to a boolean.\<close>

fun truthy :: "json option \<Rightarrow> bool" where
  "truthy None = False"
| "truthy (Some JNull) = False"
| "truthy (Some (JBool b)) = b"
| "truthy (Some (JNumber n)) = (n \<noteq> 0)"
| "truthy (Some (JString s)) = (s \<noteq> [])"
| "truthy (Some (JArray vs)) = True"
| "truthy (Some (JObject members)) = True"

text \<open>
  The handler, started on the empty record of effects. \<open>!token\<close> holds for an absent and
  for an empty token. The \<open>context\<close> argument is not used by the source.
\<close>

definition handler :: "env \<Rightarrow> event \<Rightarrow> unit settled \<times> effect list" where
  "handler E ev =
     (case authorizationToken ev of
        None \<Rightarrow> (Fulfilled (), [Callback (Cb_error ''Unauthorized'')])
      | Some token \<Rightarrow>
          if token = [] then (Fulfilled (), [Callback (Cb_error ''Unauthorized'')])
          else
            await (getParam E ''/google/captcha_secret_key'') (\<lambda>captcha_secret_key.
            await (getParam E ''/google/google_captch_verification_url'') (\<lambda>google_captch_verification_url.
            await (eval_sync (Parameter_Value captcha_secret_key)) (\<lambda>secret.
            await (eval_sync (Parameter_Value google_captch_verification_url)) (\<lambda>url.
            await (then_result (verifyCaptcha E secret url token)) (\<lambda>result.
            await (eval_sync (JSON_parse result)) (\<lambda>parsed.
            await (eval_sync (success_of parsed)) (\<lambda>success tr.
              if truthy success
              then (let policy = genPolicy ''allow'' (methodArn ev);
                        context = \<lparr>simpleAuth = True\<rparr>;
                        response = \<lparr>policyDocument = policy, context_map = context\<rparr>
                    in (Fulfilled (), tr @ [Callback (Cb_result response)]))
              else (Fulfilled (), tr @ [Callback (Cb_error ''Unauthorized'')])))))))) [])"

section \<open>Observations on the record of effects\<close>

fun callbacks :: "effect list \<Rightarrow> callback_args list" where
  "callbacks [] = []"
| "callbacks (Callback c # tr) = c # callbacks tr"
| "callbacks (x # tr) = callbacks tr"

fun https_requests :: "effect list \<Rightarrow> request_options list" where
  "https_requests [] = []"
| "https_requests (Https_request opts # tr) = opts # https_requests tr"
| "https_requests (x # tr) = https_requests tr"

fun ssm_lookups :: "effect list \<Rightarrow> string list" where
  "ssm_lookups [] = []"
| "ssm_lookups (Ssm_getParameter name # tr) = name # ssm_lookups tr"
| "ssm_lookups (x # tr) = ssm_lookups tr"

text \<open>
  What the handler reads from the store under a name, \<open>data.Parameter.Value\<close>, or the
  error that the read ends in: the error of the store, or the \<open>TypeError\<close> of an answer
  without \<open>Parameter\<close>.
\<close>

definition config_value :: "env \<Rightarrow> string \<Rightarrow> js_error + string" where
  "config_value E name =
     (case getParameter E name of Inl err \<Rightarrow> Inl err | Inr data \<Rightarrow> Parameter_Value data)"

section \<open>The module scope across invocations\<close>

text \<open>
  What outlives an invocation is the scope of the loaded module (lines 7 to 28):
  \<open>AWS.config\<close> after \<open>AWS.config.update({region: 'ap-southeast-2'})\<close>, and
  \<open>parameterStore\<close>, the client made by \<open>new AWS.SSM()\<close>, which holds the configuration
  it was made with. The other bindings of the module (\<open>https\<close>, \<open>getParam\<close>,
  \<open>genPolicy\<close>, \<open>verifyCaptcha\<close>, the handler) are constant bindings to code. The
  variables of the handler (\<open>token\<close>, \<open>result\<close> and the others) are created by each call.
\<close>

record aws_config =
  region :: string

record ssm_client =
  client_config :: aws_config

record module_scope =
  AWS_config :: aws_config
  parameterStore :: ssm_client

definition module_load :: module_scope where
  "module_load =
     (let cfg = \<lparr>region = ''ap-southeast-2''\<rparr>
      in \<lparr>AWS_config = cfg, parameterStore = \<lparr>client_config = cfg\<rparr>\<rparr>)"

text \<open>
  The collaborators as the module reaches them: the parameter store answers the client
  that asks, so the answer may depend on the client held in the module scope.
\<close>

record world =
  variables :: "string \<Rightarrow> string option"
  ssm_answer :: "ssm_client \<Rightarrow> string \<Rightarrow> js_error + ssm_data"
  network :: "request_options \<Rightarrow> http_event list"

text \<open>
  The functions of the source once more, as the runtime runs them on the loaded module.
  Every step takes the module scope and hands it on, so an assignment to a binding of
  the module, or to a member of its objects, would show in the scope returned.
  \<open>getParam\<close> reads \<open>parameterStore\<close> from the scope; no step of the source assigns to
  the scope.
\<close>

type_synonym 'a module_task =
  "module_scope \<Rightarrow> effect list \<Rightarrow> 'a settled \<times> module_scope \<times> effect list"

definition module_await :: "'a module_task \<Rightarrow> ('a \<Rightarrow> 'b module_task) \<Rightarrow> 'b module_task" where
  "module_await p k M tr =
     (case p M tr of
        (Fulfilled v, M', tr') \<Rightarrow> k v M' tr'
      | (Rejected e, M', tr') \<Rightarrow> (Rejected e, M', tr')
      | (Pending, M', tr') \<Rightarrow> (Pending, M', tr'))"

definition module_eval_sync :: "js_error + 'a \<Rightarrow> 'a module_task" where
  "module_eval_sync x M tr =
     (case x of Inl e \<Rightarrow> (Rejected e, M, tr) | Inr v \<Rightarrow> (Fulfilled v, M, tr))"

definition module_getParam :: "world \<Rightarrow> string \<Rightarrow> ssm_data module_task" where
  "module_getParam W param M tr =
     (case ssm_answer W (parameterStore M) param of
        Inl err \<Rightarrow> (Rejected err, M, tr @ [Ssm_getParameter param])
      | Inr data \<Rightarrow> (Fulfilled data, M, tr @ [Ssm_getParameter param]))"

definition module_verifyCaptcha :: "world \<Rightarrow> string \<Rightarrow> string \<Rightarrow> string \<Rightarrow> chunk module_task" where
  "module_verifyCaptcha W captcha_secret_key google_captch_verification_url token M tr =
     (let opts = options captcha_secret_key google_captch_verification_url token
      in case on_events (network W opts) Pending (tr @ [Https_request opts]) of
           (p, tr') \<Rightarrow> (p, M, tr'))"

definition module_then_result :: "chunk module_task \<Rightarrow> chunk option module_task" where
  "module_then_result p M tr =
     (case p M tr of
        (Fulfilled r, M', tr') \<Rightarrow> (Fulfilled (Some r), M', tr')
      | (Rejected e, M', tr') \<Rightarrow> (Fulfilled None, M', tr' @ [Console_log (Log_error e)])
      | (Pending, M', tr') \<Rightarrow> (Pending, M', tr'))"

definition module_handler ::
  "world \<Rightarrow> event \<Rightarrow> module_scope \<Rightarrow> unit settled \<times> module_scope \<times> effect list" where
  "module_handler W ev M =
     (case authorizationToken ev of
        None \<Rightarrow> (Fulfilled (), M, [Callback (Cb_error ''Unauthorized'')])
      | Some token \<Rightarrow>
          if token = [] then (Fulfilled (), M, [Callback (Cb_error ''Unauthorized'')])
          else
            module_await (module_getParam W ''/google/captcha_secret_key'') (\<lambda>captcha_secret_key.
            module_await (module_getParam W ''/google/google_captch_verification_url'') (\<lambda>google_captch_verification_url.
            module_await (module_eval_sync (Parameter_Value captcha_secret_key)) (\<lambda>secret.
            module_await (module_eval_sync (Parameter_Value google_captch_verification_url)) (\<lambda>url.
            module_await (module_then_result (module_verifyCaptcha W secret url token)) (\<lambda>result.
            module_await (module_eval_sync (JSON_parse result)) (\<lambda>parsed.
            module_await (module_eval_sync (success_of parsed)) (\<lambda>success M' tr.
              if truthy success
              then (let policy = genPolicy ''allow'' (methodArn ev);
                        context = \<lparr>simpleAuth = True\<rparr>;
                        response = \<lparr>policyDocument = policy, context_map = context\<rparr>
                    in (Fulfilled (), M', tr @ [Callback (Cb_result response)]))
              else (Fulfilled (), M', tr @ [Callback (Cb_error ''Unauthorized'')])))))))) M [])"

text \<open>
  The collaborators of one invocation, as \<open>handler\<close> takes them, for a module scope; the
  module scope after a list of invocations, each with its own collaborators and event;
  and what an invocation shows outside, its result and its effects.
\<close>

definition env_in :: "world \<Rightarrow> module_scope \<Rightarrow> env" where
  "env_in W M =
     \<lparr>process_env = variables W,
      getParameter = ssm_answer W (parameterStore M),
      https_request = network W\<rparr>"

fun module_after :: "(world \<times> event) list \<Rightarrow> module_scope \<Rightarrow> module_scope" where
  "module_after [] M = M"
| "module_after ((W, ev) # invocations) M =
     module_after invocations (fst (snd (module_handler W ev M)))"

definition outcome :: "unit settled \<times> module_scope \<times> effect list \<Rightarrow> unit settled \<times> effect list" where
  "outcome r = (fst r, snd (snd r))"

section \<open>Concrete invocations\<close>

text \<open>
  Events, parameter stores and networks used to run the handler on concrete inputs. The
  endpoint value is the one the comments of the source give as usual.
\<close>

definition event_abc :: event where
  "event_abc = \<lparr>authorizationToken = Some ''abc'',
                methodArn = ''arn:aws:execute-api:ap-southeast-2:123456789012:api/prod/GET/items''\<rparr>"

definition event_no_token :: event where
  "event_no_token = \<lparr>authorizationToken = None,
                     methodArn = ''arn:aws:execute-api:ap-southeast-2:123456789012:api/prod/GET/items''\<rparr>"

definition store_ok :: "string \<Rightarrow> js_error + ssm_data" where
  "store_ok name =
     (if name = ''/google/captcha_secret_key''
      then Inr \<lparr>Parameter = Some \<lparr>Value = ''s3cr3t''\<rparr>\<rparr>
      else if name = ''/google/google_captch_verification_url''
      then Inr \<lparr>Parameter = Some \<lparr>Value = ''https://www.google.com/recaptcha/api/siteverify''\<rparr>\<rparr>
      else Inl (Service_error ''ParameterNotFound''))"

definition store_down :: "string \<Rightarrow> js_error + ssm_data" where
  "store_down name = Inl (Service_error ''ServiceUnavailable'')"

definition env_of :: "(string \<Rightarrow> js_error + ssm_data) \<Rightarrow> http_event list \<Rightarrow> env" where
  "env_of store events =
     \<lparr>process_env = Map.empty, getParameter = store, https_request = (\<lambda>opts. events)\<rparr>"

definition success_true :: chunk where
  "success_true = Json_text (JObject [(''success'', JBool True)])"

definition success_false :: chunk where
  "success_false = Json_text (JObject [(''success'', JBool False)])"

text \<open>
  A deployment that names its two parameters in environment variables and keeps values
  under those names (and under the names the source uses), a connection that is reset
  before any response, and a body whose \<open>success\<close> member is the string \<open>"false"\<close>.
\<close>

definition configured_names :: "string \<Rightarrow> string option" where
  "configured_names =
     [''CAPTCHA_SECRET_KEY_NAME'' \<mapsto> ''/prod/captcha/secret'',
      ''CAPTCHA_VERIFICATION_URL_NAME'' \<mapsto> ''/prod/captcha/url'']"

definition store_prod :: "string \<Rightarrow> js_error + ssm_data" where
  "store_prod name =
     (if name = ''/prod/captcha/secret''
      then Inr \<lparr>Parameter = Some \<lparr>Value = ''pr0d''\<rparr>\<rparr>
      else if name = ''/prod/captcha/url''
      then Inr \<lparr>Parameter = Some \<lparr>Value = ''/recaptcha/api/siteverify''\<rparr>\<rparr>
      else store_ok name)"

definition env_configured :: env where
  "env_configured =
     \<lparr>process_env = configured_names, getParameter = store_prod,
      https_request = (\<lambda>opts. [Response 200 [success_true]])\<rparr>"

definition connection_reset :: "http_event list" where
  "connection_reset = [Req_error (Service_error ''ECONNRESET'')]"

definition success_string_false :: chunk where
  "success_string_false = Json_text (JObject [(''success'', JString ''false'')])"

text \<open>
  Collaborators of a loaded module: the store answers a client of the region
  \<open>ap-southeast-2\<close> and knows no parameter in any other region. Two of them differ in
  the environment variables only. The earlier invocations are run on the module before
  the invocation that is looked at.
\<close>

definition world_of :: "(string \<Rightarrow> js_error + ssm_data) \<Rightarrow> http_event list \<Rightarrow> world" where
  "world_of store events =
     \<lparr>variables = Map.empty,
      ssm_answer = (\<lambda>client name.
         if region (client_config client) = ''ap-southeast-2'' then store name
         else Inl (Service_error ''ParameterNotFound'')),
      network = (\<lambda>opts. events)\<rparr>"

definition world_a :: world where
  "world_a = world_of store_ok [Response 200 [success_true]]"

definition world_b :: world where
  "world_b = world_a\<lparr>variables := configured_names\<rparr>"

definition earlier_invocations :: "(world \<times> event) list" where
  "earlier_invocations =
     [(world_of store_down connection_reset, event_abc),
      (world_of store_ok [Response 200 [success_false]], event_abc),
      (world_a, event_no_token)]"

lemmas scenario_defs =
  event_abc_def event_no_token_def store_ok_def store_down_def env_of_def
  success_true_def success_false_def connection_reset_def success_string_false_def
  configured_names_def store_prod_def env_configured_def

lemmas run_defs =
  handler_def await_def getParam_def eval_sync_def Parameter_Value_def then_result_def
  verifyCaptcha_def options_def genPolicy_def Let_def

section \<open>The record of effects\<close>

lemma callbacks_append: "callbacks (xs @ ys) = callbacks xs @ callbacks ys"
  by (induction xs rule: callbacks.induct) simp_all
lemma https_requests_append: "https_requests (xs @ ys) = https_requests xs @ https_requests ys"
  by (induction xs rule: https_requests.induct) simp_all
lemma ssm_lookups_append: "ssm_lookups (xs @ ys) = ssm_lookups xs @ ssm_lookups ys"
  by (induction xs rule: ssm_lookups.induct) simp_all

lemma on_events_fst_any: "fst (on_events es p tr) = fst (on_events es p tr')"
proof (induction es arbitrary: p tr tr')
  case Nil
  show ?case by simp
next
  case (Cons e es)
  show ?case
  proof (cases e)
    case (Req_error x)
    have "fst (on_events es (settle p (Rejected x)) tr)
          = fst (on_events es (settle p (Rejected x)) tr')"
      by (rule Cons.IH)
    then show ?thesis using Req_error by simp
  next
    case (Response sc ds)
    let ?q = "foldl (\<lambda>q d. settle q (Fulfilled d)) p ds"
    have "fst (on_events es ?q (tr @ [Console_log (Log_statusCode sc)]))
          = fst (on_events es ?q (tr' @ [Console_log (Log_statusCode sc)]))"
      by (rule Cons.IH)
    then show ?thesis using Response by simp
  qed
qed

lemma on_events_snd: "snd (on_events es p tr) = tr @ snd (on_events es p [])"
proof (induction es arbitrary: p tr)
  case Nil
  show ?case by simp
next
  case (Cons e es)
  show ?case
  proof (cases e)
    case (Req_error x)
    have "snd (on_events es (settle p (Rejected x)) tr)
          = tr @ snd (on_events es (settle p (Rejected x)) [])"
      by (rule Cons.IH)
    then show ?thesis using Req_error by simp
  next
    case (Response sc ds)
    let ?q = "foldl (\<lambda>q d. settle q (Fulfilled d)) p ds"
    have "snd (on_events es ?q (tr @ [Console_log (Log_statusCode sc)]))
          = (tr @ [Console_log (Log_statusCode sc)]) @ snd (on_events es ?q [])"
      by (rule Cons.IH)
    moreover have "snd (on_events es ?q [Console_log (Log_statusCode sc)])
          = [Console_log (Log_statusCode sc)] @ snd (on_events es ?q [])"
      by (rule Cons.IH)
    ultimately show ?thesis using Response by simp
  qed
qed

lemma on_events_logs_only: "\<exists>logs. snd (on_events es p []) = map Console_log logs"
proof (induction es arbitrary: p)
  case Nil
  show ?case by simp
next
  case (Cons e es)
  show ?case
  proof (cases e)
    case (Req_error x)
    then show ?thesis using Cons.IH [of "settle p (Rejected x)"] by simp
  next
    case (Response sc ds)
    let ?q = "foldl (\<lambda>q d. settle q (Fulfilled d)) p ds"
    obtain logs where L: "snd (on_events es ?q []) = map Console_log logs"
      using Cons.IH by blast
    have "snd (on_events (e # es) p []) = map Console_log (Log_statusCode sc # logs)"
      using Response L on_events_snd [of es ?q "[Console_log (Log_statusCode sc)]"] by simp
    then show ?thesis by blast
  qed
qed

lemma callbacks_logs: "callbacks (map Console_log logs) = []"
  by (induction logs) simp_all
lemma https_requests_logs: "https_requests (map Console_log logs) = []"
  by (induction logs) simp_all
lemma ssm_lookups_logs: "ssm_lookups (map Console_log logs) = []"
  by (induction logs) simp_all


lemma verifyCaptcha_split:
  "verifyCaptcha E secret url t tr =
     (fst (verifyCaptcha E secret url t []), tr @ snd (verifyCaptcha E secret url t []))"
proof -
  let ?opts = "options secret url t"
  have "fst (on_events (https_request E ?opts) Pending (tr @ [Https_request ?opts]))
        = fst (on_events (https_request E ?opts) Pending [Https_request ?opts])"
    by (rule on_events_fst_any)
  moreover have "snd (on_events (https_request E ?opts) Pending (tr @ [Https_request ?opts]))
        = tr @ snd (on_events (https_request E ?opts) Pending [Https_request ?opts])"
    using on_events_snd [of "https_request E ?opts" Pending "tr @ [Https_request ?opts]"]
          on_events_snd [of "https_request E ?opts" Pending "[Https_request ?opts]"]
    by simp
  ultimately show ?thesis
    by (simp add: verifyCaptcha_def Let_def prod_eq_iff)
qed

lemma verifyCaptcha_effects:
  "\<exists>logs. snd (verifyCaptcha E secret url t []) =
     Https_request (options secret url t) # map Console_log logs"
proof -
  let ?opts = "options secret url t"
  obtain logs where "snd (on_events (https_request E ?opts) Pending []) = map Console_log logs"
    using on_events_logs_only by blast
  then have "snd (verifyCaptcha E secret url t []) = Https_request ?opts # map Console_log logs"
    using on_events_snd [of "https_request E ?opts" Pending "[Https_request ?opts]"]
    by (simp add: verifyCaptcha_def Let_def)
  then show ?thesis by blast
qed

lemma handler_no_token:
  assumes "authorizationToken ev = None \<or> authorizationToken ev = Some []"
  shows "handler E ev = (Fulfilled (), [Callback (Cb_error ''Unauthorized'')])"
  using assms by (auto simp: handler_def)

lemma handler_secret_fails:
  assumes "authorizationToken ev = Some t" and "t \<noteq> []"
    and "getParameter E ''/google/captcha_secret_key'' = Inl e"
  shows "handler E ev = (Rejected e, [Ssm_getParameter ''/google/captcha_secret_key''])"
  using assms by (simp add: handler_def await_def getParam_def)

lemma handler_url_fails:
  assumes "authorizationToken ev = Some t" and "t \<noteq> []"
    and "getParameter E ''/google/captcha_secret_key'' = Inr d"
    and "getParameter E ''/google/google_captch_verification_url'' = Inl e"
  shows "handler E ev =
     (Rejected e, [Ssm_getParameter ''/google/captcha_secret_key'',
                   Ssm_getParameter ''/google/google_captch_verification_url''])"
  using assms by (simp add: handler_def await_def getParam_def)

lemma handler_no_Parameter:
  assumes "authorizationToken ev = Some t" and "t \<noteq> []"
    and "getParameter E ''/google/captcha_secret_key'' = Inr d1"
    and "getParameter E ''/google/google_captch_verification_url'' = Inr d2"
    and "Parameter d1 = None \<or> Parameter d2 = None"
  shows "handler E ev =
     (Rejected TypeError, [Ssm_getParameter ''/google/captcha_secret_key'',
                           Ssm_getParameter ''/google/google_captch_verification_url''])"
  using assms
  by (auto simp: handler_def await_def getParam_def eval_sync_def Parameter_Value_def
           split: option.splits)

lemma handler_after_config:
  assumes "authorizationToken ev = Some t" and "t \<noteq> []"
    and "getParameter E ''/google/captcha_secret_key'' = Inr \<lparr>Parameter = Some \<lparr>Value = secret\<rparr>\<rparr>"
    and "getParameter E ''/google/google_captch_verification_url'' = Inr \<lparr>Parameter = Some \<lparr>Value = url\<rparr>\<rparr>"
  shows "handler E ev =
     (let tr = [Ssm_getParameter ''/google/captcha_secret_key'',
                Ssm_getParameter ''/google/google_captch_verification_url'']
               @ snd (verifyCaptcha E secret url t [])
      in case fst (verifyCaptcha E secret url t []) of
           Pending \<Rightarrow> (Pending, tr)
         | Rejected e \<Rightarrow> (Rejected SyntaxError, tr @ [Console_log (Log_error e)])
         | Fulfilled Not_json \<Rightarrow> (Rejected SyntaxError, tr)
         | Fulfilled (Json_text v) \<Rightarrow>
             (case success_of v of
                Inl e \<Rightarrow> (Rejected e, tr)
              | Inr success \<Rightarrow>
                  (Fulfilled (),
                   tr @ [Callback (if truthy success
                                   then Cb_result \<lparr>policyDocument = genPolicy ''allow'' (methodArn ev),
                                                   context_map = \<lparr>simpleAuth = True\<rparr>\<rparr>
                                   else Cb_error ''Unauthorized'')])))"
proof -
  let ?pre = "[Ssm_getParameter ''/google/captcha_secret_key'',
               Ssm_getParameter ''/google/google_captch_verification_url'']"
  have V: "verifyCaptcha E secret url t ?pre =
     (fst (verifyCaptcha E secret url t []), ?pre @ snd (verifyCaptcha E secret url t []))"
    by (rule verifyCaptcha_split)
  show ?thesis
    using assms
    by (simp add: handler_def await_def getParam_def eval_sync_def Parameter_Value_def
                  then_result_def V Let_def
             split: settled.splits chunk.splits sum.splits)
qed

section \<open>The handler by cases\<close>

text \<open>
  Every run of the handler is of one of three kinds: the token is absent or empty; a
  parameter is not obtained; or both parameters are obtained and the verification request
  is made. The lemmas below give the result and the effects of each kind.
\<close>

lemma callbacks_set: "c \<in> set (callbacks tr) \<longleftrightarrow> Callback c \<in> set tr"
  by (induction tr rule: callbacks.induct) auto

lemma config_value_Inr:
  "config_value E name = Inr v \<longleftrightarrow> getParameter E name = Inr \<lparr>Parameter = Some \<lparr>Value = v\<rparr>\<rparr>"
proof (cases "getParameter E name")
  case (Inl e)
  then show ?thesis by (simp add: config_value_def)
next
  case (Inr d)
  show ?thesis
  proof (cases "Parameter d")
    case None
    then show ?thesis using Inr by (auto simp: config_value_def Parameter_Value_def)
  next
    case (Some p)
    have "d = \<lparr>Parameter = Some p\<rparr>" using Some by (cases d) simp
    moreover have "p = \<lparr>Value = Value p\<rparr>" by (cases p) simp
    ultimately show ?thesis using Inr Some
      by (cases p) (auto simp: config_value_def Parameter_Value_def)
  qed
qed

lemma handler_config_fails:
  assumes "authorizationToken ev = Some t" and "t \<noteq> []"
    and "isl (config_value E ''/google/captcha_secret_key'')
       \<or> isl (config_value E ''/google/google_captch_verification_url'')"
  shows "handler E ev =
     (case getParameter E ''/google/captcha_secret_key'' of
        Inl e \<Rightarrow> (Rejected e, [Ssm_getParameter ''/google/captcha_secret_key''])
      | Inr d1 \<Rightarrow>
          (case getParameter E ''/google/google_captch_verification_url'' of
             Inl e \<Rightarrow> (Rejected e, [Ssm_getParameter ''/google/captcha_secret_key'',
                                     Ssm_getParameter ''/google/google_captch_verification_url''])
           | Inr d2 \<Rightarrow> (Rejected TypeError,
                         [Ssm_getParameter ''/google/captcha_secret_key'',
                          Ssm_getParameter ''/google/google_captch_verification_url''])))"
proof (cases "getParameter E ''/google/captcha_secret_key''")
  case (Inl e)
  then show ?thesis using handler_secret_fails [OF assms(1,2) Inl] by simp
next
  case d1: (Inr d1)
  show ?thesis
  proof (cases "getParameter E ''/google/google_captch_verification_url''")
    case (Inl e)
    then show ?thesis using handler_url_fails [OF assms(1,2) d1 Inl] d1 by simp
  next
    case d2: (Inr d2)
    have "Parameter d1 = None \<or> Parameter d2 = None"
      using assms(3) d1 d2
      by (auto simp: config_value_def Parameter_Value_def split: option.splits)
    then show ?thesis using handler_no_Parameter [OF assms(1,2) d1 d2] d1 d2 by simp
  qed
qed

lemma handler_cases [case_names no_token config_fails verification]:
  obtains "authorizationToken ev = None \<or> authorizationToken ev = Some []"
  | t where "authorizationToken ev = Some t" and "t \<noteq> []"
      and "isl (config_value E ''/google/captcha_secret_key'')
         \<or> isl (config_value E ''/google/google_captch_verification_url'')"
  | t secret url where "authorizationToken ev = Some t" and "t \<noteq> []"
      and "getParameter E ''/google/captcha_secret_key'' = Inr \<lparr>Parameter = Some \<lparr>Value = secret\<rparr>\<rparr>"
      and "getParameter E ''/google/google_captch_verification_url'' = Inr \<lparr>Parameter = Some \<lparr>Value = url\<rparr>\<rparr>"
proof (cases "authorizationToken ev")
  case None
  then show ?thesis using that(1) by simp
next
  case (Some t)
  show ?thesis
  proof (cases "t = []")
    case True
    then show ?thesis using Some that(1) by simp
  next
    case False
    show ?thesis
    proof (cases "config_value E ''/google/captcha_secret_key''")
      case (Inl e)
      then show ?thesis using that(2) [OF Some False] by simp
    next
      case s: (Inr secret)
      show ?thesis
      proof (cases "config_value E ''/google/google_captch_verification_url''")
        case (Inl e)
        then show ?thesis using that(2) [OF Some False] by simp
      next
        case u: (Inr url)
        show ?thesis
          using that(3) [OF Some False] s u by (simp add: config_value_Inr)
      qed
    qed
  qed
qed

lemma after_config_completion:
  assumes "authorizationToken ev = Some t" and "t \<noteq> []"
    and "getParameter E ''/google/captcha_secret_key'' = Inr \<lparr>Parameter = Some \<lparr>Value = secret\<rparr>\<rparr>"
    and "getParameter E ''/google/google_captch_verification_url'' = Inr \<lparr>Parameter = Some \<lparr>Value = url\<rparr>\<rparr>"
  shows "fst (handler E ev) =
     (case fst (verifyCaptcha E secret url t []) of
        Pending \<Rightarrow> Pending
      | Rejected e \<Rightarrow> Rejected SyntaxError
      | Fulfilled Not_json \<Rightarrow> Rejected SyntaxError
      | Fulfilled (Json_text v) \<Rightarrow>
          (case success_of v of Inl e \<Rightarrow> Rejected e | Inr success \<Rightarrow> Fulfilled ()))"
  using handler_after_config [OF assms]
  by (simp add: Let_def split: settled.splits chunk.splits sum.splits)

lemma after_config_callbacks:
  assumes "authorizationToken ev = Some t" and "t \<noteq> []"
    and "getParameter E ''/google/captcha_secret_key'' = Inr \<lparr>Parameter = Some \<lparr>Value = secret\<rparr>\<rparr>"
    and "getParameter E ''/google/google_captch_verification_url'' = Inr \<lparr>Parameter = Some \<lparr>Value = url\<rparr>\<rparr>"
  shows "callbacks (snd (handler E ev)) =
     (case fst (verifyCaptcha E secret url t []) of
        Pending \<Rightarrow> []
      | Rejected e \<Rightarrow> []
      | Fulfilled Not_json \<Rightarrow> []
      | Fulfilled (Json_text v) \<Rightarrow>
          (case success_of v of
             Inl e \<Rightarrow> []
           | Inr success \<Rightarrow>
               [if truthy success
                then Cb_result \<lparr>policyDocument = genPolicy ''allow'' (methodArn ev),
                                context_map = \<lparr>simpleAuth = True\<rparr>\<rparr>
                else Cb_error ''Unauthorized'']))"
proof -
  obtain logs where L: "snd (verifyCaptcha E secret url t []) =
      Https_request (options secret url t) # map Console_log logs"
    using verifyCaptcha_effects by blast
  show ?thesis
    using handler_after_config [OF assms] L
    by (simp add: Let_def callbacks_append callbacks_logs
             split: settled.splits chunk.splits sum.splits)
qed

lemma after_config_requests:
  assumes "authorizationToken ev = Some t" and "t \<noteq> []"
    and "getParameter E ''/google/captcha_secret_key'' = Inr \<lparr>Parameter = Some \<lparr>Value = secret\<rparr>\<rparr>"
    and "getParameter E ''/google/google_captch_verification_url'' = Inr \<lparr>Parameter = Some \<lparr>Value = url\<rparr>\<rparr>"
  shows "https_requests (snd (handler E ev)) = [options secret url t]"
    and "ssm_lookups (snd (handler E ev)) =
           [''/google/captcha_secret_key'', ''/google/google_captch_verification_url'']"
proof -
  obtain logs where L: "snd (verifyCaptcha E secret url t []) =
      Https_request (options secret url t) # map Console_log logs"
    using verifyCaptcha_effects by blast
  show "https_requests (snd (handler E ev)) = [options secret url t]"
    using handler_after_config [OF assms] L
    by (simp add: Let_def https_requests_append https_requests_logs
             split: settled.splits chunk.splits sum.splits)
  show "ssm_lookups (snd (handler E ev)) =
           [''/google/captcha_secret_key'', ''/google/google_captch_verification_url'']"
    using handler_after_config [OF assms] L
    by (simp add: Let_def ssm_lookups_append ssm_lookups_logs
             split: settled.splits chunk.splits sum.splits)
qed

lemma config_fails_summary:
  assumes "authorizationToken ev = Some t" and "t \<noteq> []"
    and "isl (config_value E ''/google/captcha_secret_key'')
       \<or> isl (config_value E ''/google/google_captch_verification_url'')"
  shows "callbacks (snd (handler E ev)) = []"
    and "https_requests (snd (handler E ev)) = []"
    and "\<exists>e. fst (handler E ev) = Rejected e"
  using handler_config_fails [OF assms]
  by (simp_all split: sum.splits)

lemma success_of_Some:
  "success_of v = Inr (Some s) \<longleftrightarrow> (\<exists>members. v = JObject members \<and> map_of (rev members) ''success'' = Some s)"
  by (cases v) auto

lemma success_of_Inl: "success_of v = Inl e \<longleftrightarrow> v = JNull \<and> e = TypeError"
  by (cases v) auto

lemma fulfilled_iff_one_callback:
  "length (callbacks (snd (handler E ev))) \<le> 1
   \<and> (length (callbacks (snd (handler E ev))) = 1 \<longleftrightarrow> fst (handler E ev) = Fulfilled ())"
proof (cases rule: handler_cases [where ev = ev and E = E])
  case no_token
  then show ?thesis using handler_no_token [OF no_token, of E] by simp
next
  case (config_fails t)
  then show ?thesis using config_fails_summary [OF config_fails] by auto
next
  case (verification t secret url)
  show ?thesis
    using after_config_callbacks [OF verification] after_config_completion [OF verification]
    by (simp split: settled.splits chunk.splits sum.splits)
qed

lemma fulfilled_iff_inputs:
  "fst (handler E ev) = Fulfilled () \<longleftrightarrow>
     (authorizationToken ev = None \<or> authorizationToken ev = Some []
      \<or> (\<exists>t secret url v.
            authorizationToken ev = Some t
          \<and> getParameter E ''/google/captcha_secret_key'' = Inr \<lparr>Parameter = Some \<lparr>Value = secret\<rparr>\<rparr>
          \<and> getParameter E ''/google/google_captch_verification_url'' = Inr \<lparr>Parameter = Some \<lparr>Value = url\<rparr>\<rparr>
          \<and> fst (verifyCaptcha E secret url t []) = Fulfilled (Json_text v)
          \<and> v \<noteq> JNull))"
  (is "?L \<longleftrightarrow> ?R")
proof (cases rule: handler_cases [where ev = ev and E = E])
  case no_token
  then show ?thesis using handler_no_token [OF no_token, of E] by auto
next
  case (config_fails t)
  have "\<not> ?L" using config_fails_summary(3) [OF config_fails] by auto
  moreover have "\<not> ?R"
    using config_fails by (auto simp: config_value_Inr [symmetric])
  ultimately show ?thesis by blast
next
  case (verification t secret url)
  have L: "?L \<longleftrightarrow> (\<exists>v. fst (verifyCaptcha E secret url t []) = Fulfilled (Json_text v) \<and> v \<noteq> JNull)"
    using after_config_completion [OF verification]
    by (auto simp: success_of_Inl split: settled.splits chunk.splits sum.splits)
  have R: "?R \<longleftrightarrow> (\<exists>v. fst (verifyCaptcha E secret url t []) = Fulfilled (Json_text v) \<and> v \<noteq> JNull)"
    using verification by auto
  show ?thesis using L R by blast
qed

lemma handler_ignores_process_env: "handler (E\<lparr>process_env := names\<rparr>) ev = handler E ev"
proof -
  have g: "getParam (E\<lparr>process_env := names\<rparr>) = getParam E"
    by (intro ext) (simp add: getParam_def)
  have v: "verifyCaptcha (E\<lparr>process_env := names\<rparr>) = verifyCaptcha E"
    by (intro ext) (simp add: verifyCaptcha_def)
  show ?thesis unfolding handler_def g v by (rule refl)
qed

section \<open>The handler on the module scope\<close>

text \<open>
  The run on the module scope is the run of \<open>handler\<close> with the collaborators that the
  scope gives, and it returns the scope as it got it.
\<close>

lemma module_await_lift:
  assumes "p M tr = (fst (p' tr), M, snd (p' tr))"
    and "\<And>v tr'. k v M tr' = (fst (k' v tr'), M, snd (k' v tr'))"
  shows "module_await p k M tr = (fst (await p' k' tr), M, snd (await p' k' tr))"
proof (cases "p' tr")
  case (Pair r tr')
  show ?thesis
  proof (cases r)
    case (Fulfilled v)
    then show ?thesis using assms(1) assms(2) [of v tr'] Pair
      by (simp add: module_await_def await_def)
  next
    case (Rejected e)
    then show ?thesis using assms(1) Pair by (simp add: module_await_def await_def)
  next
    case Pending
    then show ?thesis using assms(1) Pair by (simp add: module_await_def await_def)
  qed
qed

lemma module_eval_sync_lift:
  "module_eval_sync x M tr = (fst (eval_sync x tr), M, snd (eval_sync x tr))"
  by (cases x) (simp_all add: module_eval_sync_def eval_sync_def)

lemma module_getParam_lift:
  "module_getParam W param M tr =
     (fst (getParam (env_in W M) param tr), M, snd (getParam (env_in W M) param tr))"
  by (cases "ssm_answer W (parameterStore M) param")
     (simp_all add: module_getParam_def getParam_def env_in_def)

lemma module_verifyCaptcha_lift:
  "module_verifyCaptcha W secret url t M tr =
     (fst (verifyCaptcha (env_in W M) secret url t tr), M,
      snd (verifyCaptcha (env_in W M) secret url t tr))"
  by (simp add: module_verifyCaptcha_def verifyCaptcha_def env_in_def Let_def split: prod.splits)

lemma module_then_result_lift:
  assumes "p M tr = (fst (p' tr), M, snd (p' tr))"
  shows "module_then_result p M tr = (fst (then_result p' tr), M, snd (then_result p' tr))"
proof (cases "p' tr")
  case (Pair r tr')
  then show ?thesis using assms
    by (cases r) (simp_all add: module_then_result_def then_result_def)
qed

lemma module_handler_handler:
  "module_handler W ev M = (fst (handler (env_in W M) ev), M, snd (handler (env_in W M) ev))"
proof (cases "authorizationToken ev")
  case None
  then show ?thesis by (simp add: module_handler_def handler_def)
next
  case (Some token)
  show ?thesis
  proof (cases "token = []")
    case True
    then show ?thesis using Some by (simp add: module_handler_def handler_def)
  next
    case False
    show ?thesis
      unfolding module_handler_def handler_def using Some False
      apply simp
      apply (intro module_await_lift module_getParam_lift module_eval_sync_lift
                   module_then_result_lift module_verifyCaptcha_lift)
      apply (simp add: Let_def)
      done
  qed
qed

lemma handler_agree:
  assumes "getParameter E1 ''/google/captcha_secret_key'' = getParameter E2 ''/google/captcha_secret_key''"
    and "getParameter E1 ''/google/google_captch_verification_url''
           = getParameter E2 ''/google/google_captch_verification_url''"
    and "https_request E1 = https_request E2"
  shows "handler E1 ev = handler E2 ev"
proof -
  have secret: "getParam E1 ''/google/captcha_secret_key'' = getParam E2 ''/google/captcha_secret_key''"
    using assms(1) by (intro ext) (simp add: getParam_def)
  have url: "getParam E1 ''/google/google_captch_verification_url''
               = getParam E2 ''/google/google_captch_verification_url''"
    using assms(2) by (intro ext) (simp add: getParam_def)
  have verify: "verifyCaptcha E1 = verifyCaptcha E2"
    using assms(3) by (intro ext) (simp add: verifyCaptcha_def)
  show ?thesis
    unfolding handler_def secret url verify by (rule refl)
qed

lemma module_scope_kept: "fst (snd (module_handler W ev M)) = M"
  by (simp add: module_handler_handler)

lemma module_after_kept: "module_after invocations M = M"
proof (induction invocations)
  case Nil
  show ?case by simp
next
  case (Cons i invocations)
  then show ?case by (cases i) (simp add: module_scope_kept)
qed

section \<open>The claims\<close>

text \<open>
  C1. For every invocation whose verification call yields a well-formed payload (an
  object with a boolean \<open>success\<close> member, whatever its other members), the decision is
  a function of that flag alone: \<open>true\<close> gives Allow for the requested resource
  identifier, \<open>false\<close> gives Deny. The invocation has a non-empty token and both
  parameters are found, as a verification call requires.
\<close>

theorem decision_mapping_exact:
  assumes "authorizationToken ev = Some t" and "t \<noteq> []"
    and "getParameter E ''/google/captcha_secret_key'' = Inr \<lparr>Parameter = Some \<lparr>Value = secret\<rparr>\<rparr>"
    and "getParameter E ''/google/google_captch_verification_url'' = Inr \<lparr>Parameter = Some \<lparr>Value = url\<rparr>\<rparr>"
    and "fst (verifyCaptcha E secret url t []) = Fulfilled (Json_text (JObject members))"
    and "map_of (rev members) ''success'' = Some (JBool b)"
  shows "fst (handler E ev) = Fulfilled ()
       \<and> callbacks (snd (handler E ev)) =
           [if b
            then Cb_result
                   \<lparr>policyDocument =
                      \<lparr>Version = ''2012-10-17'',
                       Statement = [\<lparr>Action = ''execute-api:Invoke'', Effect = ''allow'',
                                    Resource = methodArn ev\<rparr>]\<rparr>,
                    context_map = \<lparr>simpleAuth = True\<rparr>\<rparr>
            else Cb_error ''Unauthorized'']"
proof -
  obtain logs where L: "snd (verifyCaptcha E secret url t []) =
      Https_request (options secret url t) # map Console_log logs"
    using verifyCaptcha_effects by blast
  show ?thesis
    using handler_after_config [OF assms(1-4)] assms(5,6) L
    by (simp add: Let_def callbacks_append callbacks_logs genPolicy_def)
qed

theorem decision_mapping_exact_witness:
  "authorizationToken event_abc = Some ''abc'' \<and> ''abc'' \<noteq> []
   \<and> getParameter (env_of store_ok [Response 200 [success_true]]) ''/google/captcha_secret_key''
       = Inr \<lparr>Parameter = Some \<lparr>Value = ''s3cr3t''\<rparr>\<rparr>
   \<and> getParameter (env_of store_ok [Response 200 [success_true]]) ''/google/google_captch_verification_url''
       = Inr \<lparr>Parameter = Some \<lparr>Value = ''https://www.google.com/recaptcha/api/siteverify''\<rparr>\<rparr>
   \<and> fst (verifyCaptcha (env_of store_ok [Response 200 [success_true]]) ''s3cr3t''
             ''https://www.google.com/recaptcha/api/siteverify'' ''abc'' [])
       = Fulfilled (Json_text (JObject [(''success'', JBool True)]))
   \<and> map_of (rev [(''success'', JBool True)]) ''success'' = Some (JBool True)
   \<and> callbacks (snd (handler (env_of store_ok [Response 200 [success_true]]) event_abc)) =
       [Cb_result
          \<lparr>policyDocument =
             \<lparr>Version = ''2012-10-17'',
              Statement = [\<lparr>Action = ''execute-api:Invoke'', Effect = ''allow'',
                           Resource = ''arn:aws:execute-api:ap-southeast-2:123456789012:api/prod/GET/items''\<rparr>]\<rparr>,
           context_map = \<lparr>simpleAuth = True\<rparr>\<rparr>]"
proof -
  let ?E = "env_of store_ok [Response 200 [success_true]]"
  have h1: "authorizationToken event_abc = Some ''abc''" by (simp add: event_abc_def)
  have h2: "''abc'' \<noteq> []" by simp
  have h3: "getParameter ?E ''/google/captcha_secret_key''
              = Inr \<lparr>Parameter = Some \<lparr>Value = ''s3cr3t''\<rparr>\<rparr>"
    by (simp add: env_of_def store_ok_def)
  have h4: "getParameter ?E ''/google/google_captch_verification_url''
              = Inr \<lparr>Parameter = Some \<lparr>Value = ''https://www.google.com/recaptcha/api/siteverify''\<rparr>\<rparr>"
    by (simp add: env_of_def store_ok_def)
  have h5: "fst (verifyCaptcha ?E ''s3cr3t'' ''https://www.google.com/recaptcha/api/siteverify'' ''abc'' [])
              = Fulfilled (Json_text (JObject [(''success'', JBool True)]))"
    by (simp add: verifyCaptcha_def Let_def env_of_def success_true_def)
  have h6: "map_of (rev [(''success'', JBool True)]) ''success'' = Some (JBool True)" by simp
  show ?thesis
    using h1 h3 h4 h5 decision_mapping_exact [OF h1 h2 h3 h4 h5 h6]
    by (simp add: event_abc_def)
qed

text \<open>
  C2. For every invocation whose token field is absent or empty, the handler produces
  Deny with the Unauthorized signal, \<open>callback('Unauthorized')\<close>, and makes no outbound
  verification call; it does not query the parameter store either.
\<close>

theorem missing_token_denied_without_calls:
  assumes "authorizationToken ev = None \<or> authorizationToken ev = Some []"
  shows "handler E ev = (Fulfilled (), [Callback (Cb_error ''Unauthorized'')])
       \<and> callbacks (snd (handler E ev)) = [Cb_error ''Unauthorized'']
       \<and> https_requests (snd (handler E ev)) = []
       \<and> ssm_lookups (snd (handler E ev)) = []"
  using handler_no_token [OF assms, of E] by simp

theorem missing_token_denied_without_calls_witness:
  "(authorizationToken event_no_token = None \<or> authorizationToken event_no_token = Some [])
   \<and> handler (env_of store_ok [Response 200 [success_true]]) event_no_token
       = (Fulfilled (), [Callback (Cb_error ''Unauthorized'')])
   \<and> https_requests (snd (handler (env_of store_ok [Response 200 [success_true]]) event_no_token)) = []"
proof -
  have h: "authorizationToken event_no_token = None \<or> authorizationToken event_no_token = Some []"
    by (simp add: event_no_token_def)
  show ?thesis
    using h missing_token_denied_without_calls
            [OF h, of "env_of store_ok [Response 200 [success_true]]"]
    by simp
qed




text \<open>
  C4 as stated, "when a config-store lookup fails the result is Deny and no verification
  call is attempted", does not hold in its first half when Deny is the unauthorized
  signal: with the store down, the handler stops at the first lookup, its promise is
  rejected with the error of the store, and the callback is never called.
\<close>

theorem config_failure_counterexample:
  "handler (env_of store_down [Response 200 [success_true]]) event_abc
     = (Rejected (Service_error ''ServiceUnavailable''),
        [Ssm_getParameter ''/google/captcha_secret_key''])
   \<and> callbacks (snd (handler (env_of store_down [Response 200 [success_true]]) event_abc)) = []"
  by (simp add: run_defs scenario_defs)

text \<open>
  C4, amended. For an invocation with a non-empty token where the lookup of the secret
  key or of the verification endpoint fails (the store answers with an error, or its
  answer has no \<open>Parameter\<close>), the handler produces no Allow and no
  \<open>'Unauthorized'\<close> signal, attempts no verification call, and its promise is rejected:
  with the error of the store at the lookup that failed first, or with a \<open>TypeError\<close>
  when both lookups answered and one answer has no \<open>Parameter\<close>.
\<close>

theorem config_failure_rejects:
  assumes "authorizationToken ev = Some t" and "t \<noteq> []"
    and "isl (config_value E ''/google/captcha_secret_key'')
       \<or> isl (config_value E ''/google/google_captch_verification_url'')"
  shows "callbacks (snd (handler E ev)) = []
       \<and> https_requests (snd (handler E ev)) = []
       \<and> handler E ev =
           (case getParameter E ''/google/captcha_secret_key'' of
              Inl e \<Rightarrow> (Rejected e, [Ssm_getParameter ''/google/captcha_secret_key''])
            | Inr d1 \<Rightarrow>
                (case getParameter E ''/google/google_captch_verification_url'' of
                   Inl e \<Rightarrow> (Rejected e, [Ssm_getParameter ''/google/captcha_secret_key'',
                                           Ssm_getParameter ''/google/google_captch_verification_url''])
                 | Inr d2 \<Rightarrow> (Rejected TypeError,
                               [Ssm_getParameter ''/google/captcha_secret_key'',
                                Ssm_getParameter ''/google/google_captch_verification_url''])))"
  using config_fails_summary(1,2) [OF assms] handler_config_fails [OF assms] by simp

theorem config_failure_rejects_witness:
  "authorizationToken event_abc = Some ''abc'' \<and> ''abc'' \<noteq> []
   \<and> isl (config_value (env_of store_down [Response 200 [success_true]]) ''/google/captcha_secret_key'')
   \<and> callbacks (snd (handler (env_of store_down [Response 200 [success_true]]) event_abc)) = []
   \<and> https_requests (snd (handler (env_of store_down [Response 200 [success_true]]) event_abc)) = []
   \<and> fst (handler (env_of store_down [Response 200 [success_true]]) event_abc)
       = Rejected (Service_error ''ServiceUnavailable'')"
proof -
  let ?E = "env_of store_down [Response 200 [success_true]]"
  have h1: "authorizationToken event_abc = Some ''abc''" by (simp add: event_abc_def)
  have h2: "''abc'' \<noteq> []" by simp
  have s: "isl (config_value ?E ''/google/captcha_secret_key'')"
    by (simp add: config_value_def env_of_def store_down_def)
  have h3: "isl (config_value ?E ''/google/captcha_secret_key'')
          \<or> isl (config_value ?E ''/google/google_captch_verification_url'')"
    using s by simp
  have g: "getParameter ?E ''/google/captcha_secret_key'' = Inl (Service_error ''ServiceUnavailable'')"
    by (simp add: env_of_def store_down_def)
  show ?thesis
    using h1 s g config_failure_rejects [OF h1 h2 h3]
    by simp
qed

text \<open>
  C5 as stated, "the handler never produces Allow unless a well-formed verification
  response with success equal to true was received; every failure kind resolves to Deny",
  does not hold. The condition of the source is \<open>if (success)\<close>, so a body whose
  \<open>success\<close> member is the string \<open>"false"\<close> is answered with the Allow policy. A body
  that is not JSON resolves to no Deny signal: the promise is rejected and the callback
  is not called.
\<close>

theorem fail_closed_counterexample:
  "callbacks (snd (handler (env_of store_ok [Response 200 [success_string_false]]) event_abc))
     = [Cb_result
          \<lparr>policyDocument =
             \<lparr>Version = ''2012-10-17'',
              Statement = [\<lparr>Action = ''execute-api:Invoke'', Effect = ''allow'',
                           Resource = ''arn:aws:execute-api:ap-southeast-2:123456789012:api/prod/GET/items''\<rparr>]\<rparr>,
           context_map = \<lparr>simpleAuth = True\<rparr>\<rparr>]
   \<and> handler (env_of store_ok [Response 200 [Not_json]]) event_abc
     = (Rejected SyntaxError,
        [Ssm_getParameter ''/google/captcha_secret_key'',
         Ssm_getParameter ''/google/google_captch_verification_url'',
         Https_request
           \<lparr>hostname = ''www.google.com'', port = 443,
            path = ''https://www.google.com/recaptcha/api/siteverify?secret=s3cr3t&response=abc'',
            http_method = ''POST'',
            headers = [(''Content-Type'', ''application/json'')]\<rparr>,
         Console_log (Log_statusCode 200)])"
  by (simp add: run_defs scenario_defs)

text \<open>
  C5, amended. The handler calls back with an Allow response only if the token is not
  empty, both parameters were found, and the first body chunk of the verification
  response parses to an object whose \<open>success\<close> member is truthy in the sense of
  JavaScript (\<open>true\<close>, a number other than zero, a non-empty string, an array or an
  object). In every other run, whatever the store and the network do, no Allow response
  is produced.
\<close>

theorem allow_only_on_truthy_success:
  assumes "Callback (Cb_result r) \<in> set (snd (handler E ev))"
  shows "\<exists>t secret url members s.
           authorizationToken ev = Some t \<and> t \<noteq> []
         \<and> getParameter E ''/google/captcha_secret_key'' = Inr \<lparr>Parameter = Some \<lparr>Value = secret\<rparr>\<rparr>
         \<and> getParameter E ''/google/google_captch_verification_url'' = Inr \<lparr>Parameter = Some \<lparr>Value = url\<rparr>\<rparr>
         \<and> fst (verifyCaptcha E secret url t []) = Fulfilled (Json_text (JObject members))
         \<and> map_of (rev members) ''success'' = Some s
         \<and> truthy (Some s)"
proof -
  have r: "Cb_result r \<in> set (callbacks (snd (handler E ev)))"
    using assms by (simp add: callbacks_set)
  show ?thesis
  proof (cases rule: handler_cases [where ev = ev and E = E])
    case no_token
    then show ?thesis using r handler_no_token [OF no_token, of E] by simp
  next
    case (config_fails t)
    then show ?thesis using r config_fails_summary(1) [OF config_fails] by simp
  next
    case (verification t secret url)
    from r after_config_callbacks [OF verification]
    obtain v success where v: "fst (verifyCaptcha E secret url t []) = Fulfilled (Json_text v)"
      and s: "success_of v = Inr success" and tr: "truthy success"
      by (auto split: settled.splits chunk.splits sum.splits if_splits)
    from tr obtain s' where s': "success = Some s'" by (cases success) auto
    from s s' obtain members where "v = JObject members"
      and "map_of (rev members) ''success'' = Some s'"
      by (auto simp: success_of_Some)
    then show ?thesis using verification v tr s' by blast
  qed
qed

theorem allow_only_on_truthy_success_witness:
  "Callback (Cb_result
      \<lparr>policyDocument =
         \<lparr>Version = ''2012-10-17'',
          Statement = [\<lparr>Action = ''execute-api:Invoke'', Effect = ''allow'',
                       Resource = methodArn event_abc\<rparr>]\<rparr>,
       context_map = \<lparr>simpleAuth = True\<rparr>\<rparr>)
     \<in> set (snd (handler (env_of store_ok [Response 200 [success_string_false]]) event_abc))
   \<and> (\<exists>t secret url members s.
           authorizationToken event_abc = Some t \<and> t \<noteq> []
         \<and> getParameter (env_of store_ok [Response 200 [success_string_false]]) ''/google/captcha_secret_key''
             = Inr \<lparr>Parameter = Some \<lparr>Value = secret\<rparr>\<rparr>
         \<and> getParameter (env_of store_ok [Response 200 [success_string_false]]) ''/google/google_captch_verification_url''
             = Inr \<lparr>Parameter = Some \<lparr>Value = url\<rparr>\<rparr>
         \<and> fst (verifyCaptcha (env_of store_ok [Response 200 [success_string_false]]) secret url t [])
             = Fulfilled (Json_text (JObject members))
         \<and> map_of (rev members) ''success'' = Some s
         \<and> truthy (Some s))"
proof -
  let ?E = "env_of store_ok [Response 200 [success_string_false]]"
  let ?r = "\<lparr>policyDocument =
         \<lparr>Version = ''2012-10-17'',
          Statement = [\<lparr>Action = ''execute-api:Invoke'', Effect = ''allow'',
                       Resource = methodArn event_abc\<rparr>]\<rparr>,
       context_map = \<lparr>simpleAuth = True\<rparr>\<rparr>"
  have h: "Callback (Cb_result ?r) \<in> set (snd (handler ?E event_abc))"
    by (simp add: run_defs scenario_defs)
  show ?thesis
    using h allow_only_on_truthy_success [OF h] by blast
qed

text \<open>
  C6. Every call of the callback is one of two: the unauthorized signal, which carries
  no policy document, or a response whose policy document has exactly one statement,
  granting \<open>execute-api:Invoke\<close> with effect \<open>allow\<close> on exactly \<open>event.methodArn\<close>,
  together with the context \<open>{simpleAuth: true}\<close>.
\<close>

theorem response_shape:
  assumes "Callback c \<in> set (snd (handler E ev))"
  shows "c = Cb_error ''Unauthorized''
       \<or> c = Cb_result
               \<lparr>policyDocument =
                  \<lparr>Version = ''2012-10-17'',
                   Statement = [\<lparr>Action = ''execute-api:Invoke'', Effect = ''allow'',
                                Resource = methodArn ev\<rparr>]\<rparr>,
                context_map = \<lparr>simpleAuth = True\<rparr>\<rparr>"
proof -
  have c: "c \<in> set (callbacks (snd (handler E ev)))"
    using assms by (simp add: callbacks_set)
  show ?thesis
  proof (cases rule: handler_cases [where ev = ev and E = E])
    case no_token
    then show ?thesis using c handler_no_token [OF no_token, of E] by simp
  next
    case (config_fails t)
    then show ?thesis using c config_fails_summary(1) [OF config_fails] by simp
  next
    case (verification t secret url)
    then show ?thesis
      using c after_config_callbacks [OF verification]
      by (auto simp: genPolicy_def split: settled.splits chunk.splits sum.splits if_splits)
  qed
qed

theorem response_shape_witness:
  "Callback (Cb_result
      \<lparr>policyDocument =
         \<lparr>Version = ''2012-10-17'',
          Statement = [\<lparr>Action = ''execute-api:Invoke'', Effect = ''allow'',
                       Resource = methodArn event_abc\<rparr>]\<rparr>,
       context_map = \<lparr>simpleAuth = True\<rparr>\<rparr>)
     \<in> set (snd (handler (env_of store_ok [Response 200 [success_true]]) event_abc))
   \<and> length (Statement (policyDocument
        \<lparr>policyDocument =
           \<lparr>Version = ''2012-10-17'',
            Statement = [\<lparr>Action = ''execute-api:Invoke'', Effect = ''allow'',
                         Resource = methodArn event_abc\<rparr>]\<rparr>,
         context_map = \<lparr>simpleAuth = True\<rparr>\<rparr>)) = 1"
proof -
  let ?E = "env_of store_ok [Response 200 [success_true]]"
  let ?r = "\<lparr>policyDocument =
         \<lparr>Version = ''2012-10-17'',
          Statement = [\<lparr>Action = ''execute-api:Invoke'', Effect = ''allow'',
                       Resource = methodArn event_abc\<rparr>]\<rparr>,
       context_map = \<lparr>simpleAuth = True\<rparr>\<rparr>"
  have h: "Callback (Cb_result ?r) \<in> set (snd (handler ?E event_abc))"
    by (simp add: run_defs scenario_defs)
  show ?thesis
    using h response_shape [OF h] by simp
qed

text \<open>
  C7 as stated, "exactly one outcome (Allow or Deny) is produced for every invocation,
  whatever the store and the verification service do", does not hold. A response without
  a body (status 204) never resolves the promise of \<open>verifyCaptcha\<close>: the handler stays
  pending and the callback is never called. With the store down the promise of the
  handler is rejected, again without a call of the callback.
\<close>

theorem one_outcome_counterexample:
  "handler (env_of store_ok [Response 204 []]) event_abc
     = (Pending,
        [Ssm_getParameter ''/google/captcha_secret_key'',
         Ssm_getParameter ''/google/google_captch_verification_url'',
         Https_request
           \<lparr>hostname = ''www.google.com'', port = 443,
            path = ''https://www.google.com/recaptcha/api/siteverify?secret=s3cr3t&response=abc'',
            http_method = ''POST'',
            headers = [(''Content-Type'', ''application/json'')]\<rparr>,
         Console_log (Log_statusCode 204)])
   \<and> length (callbacks (snd (handler (env_of store_ok [Response 204 []]) event_abc))) = 0
   \<and> length (callbacks (snd (handler (env_of store_down []) event_abc))) = 0
   \<and> fst (handler (env_of store_down []) event_abc) = Rejected (Service_error ''ServiceUnavailable'')"
  by (simp add: run_defs scenario_defs)

text \<open>
  C7, amended. Every invocation calls the callback at most once. It calls it exactly
  once precisely when the promise of the handler is fulfilled, and that is the case
  precisely when the token is absent or empty, or both parameters are found and the
  first body chunk of the verification response parses to a JSON value other than
  \<open>null\<close>. In all other runs (a failed lookup, a transport error, a body that is not JSON
  or is \<open>null\<close>, a request that never answers) no outcome is produced.
\<close>

theorem at_most_one_outcome:
  "length (callbacks (snd (handler E ev))) \<le> 1
   \<and> (length (callbacks (snd (handler E ev))) = 1 \<longleftrightarrow> fst (handler E ev) = Fulfilled ())
   \<and> (fst (handler E ev) = Fulfilled () \<longleftrightarrow>
       (authorizationToken ev = None \<or> authorizationToken ev = Some []
        \<or> (\<exists>t secret url v.
              authorizationToken ev = Some t
            \<and> getParameter E ''/google/captcha_secret_key'' = Inr \<lparr>Parameter = Some \<lparr>Value = secret\<rparr>\<rparr>
            \<and> getParameter E ''/google/google_captch_verification_url'' = Inr \<lparr>Parameter = Some \<lparr>Value = url\<rparr>\<rparr>
            \<and> fst (verifyCaptcha E secret url t []) = Fulfilled (Json_text v)
            \<and> v \<noteq> JNull)))"
  using fulfilled_iff_one_callback [of E ev] fulfilled_iff_inputs [of E ev] by blast

text \<open>
  C8. The module scope, the one place where the code could keep state from one invocation
  to the next, is after every invocation what it was before. So of two invocations with
  the same event, the same answers of the parameter store under the two names the
  handler reads, and the same behaviour of the network, the second, run on the same
  loaded module after any number of other invocations, has the result and the effects of
  the first, whatever else differs between their collaborators.
\<close>

theorem invocations_carry_no_state:
  assumes "ssm_answer W1 (parameterStore M) ''/google/captcha_secret_key''
             = ssm_answer W2 (parameterStore M) ''/google/captcha_secret_key''"
    and "ssm_answer W1 (parameterStore M) ''/google/google_captch_verification_url''
           = ssm_answer W2 (parameterStore M) ''/google/google_captch_verification_url''"
    and "network W1 = network W2"
  shows "fst (snd (module_handler W1 ev M)) = M
       \<and> module_after earlier M = M
       \<and> outcome (module_handler W2 ev (module_after earlier M)) = outcome (module_handler W1 ev M)"
proof -
  have "handler (env_in W2 M) ev = handler (env_in W1 M) ev"
    using assms by (intro handler_agree) (simp_all add: env_in_def)
  then have "outcome (module_handler W2 ev M) = outcome (module_handler W1 ev M)"
    by (simp add: outcome_def module_handler_handler)
  then show ?thesis
    by (simp add: module_scope_kept module_after_kept)
qed

theorem invocations_carry_no_state_witness:
  "ssm_answer world_a (parameterStore module_load) ''/google/captcha_secret_key''
     = ssm_answer world_b (parameterStore module_load) ''/google/captcha_secret_key''
   \<and> ssm_answer world_a (parameterStore module_load) ''/google/google_captch_verification_url''
     = ssm_answer world_b (parameterStore module_load) ''/google/google_captch_verification_url''
   \<and> network world_a = network world_b
   \<and> outcome (module_handler world_b event_abc (module_after earlier_invocations module_load))
     = outcome (module_handler world_a event_abc module_load)"
proof -
  have h1: "ssm_answer world_a (parameterStore module_load) ''/google/captcha_secret_key''
     = ssm_answer world_b (parameterStore module_load) ''/google/captcha_secret_key''"
    by (simp add: world_a_def world_b_def)
  have h2: "ssm_answer world_a (parameterStore module_load) ''/google/google_captch_verification_url''
     = ssm_answer world_b (parameterStore module_load) ''/google/google_captch_verification_url''"
    by (simp add: world_a_def world_b_def)
  have h3: "network world_a = network world_b"
    by (simp add: world_a_def world_b_def)
  have c: "outcome (module_handler world_b event_abc (module_after earlier_invocations module_load))
     = outcome (module_handler world_a event_abc module_load)"
    using invocations_carry_no_state [OF h1 h2 h3, of event_abc earlier_invocations] by blast
  show ?thesis
    using h1 h2 h3 c by blast
qed

text \<open>
  C9 as stated, "the handler queries the store under the externally configured key
  names", does not hold. In a deployment whose environment names \<open>/prod/captcha/secret\<close>
  and \<open>/prod/captcha/url\<close>, the handler asks for \<open>/google/captcha_secret_key\<close> and
  \<open>/google/google_captch_verification_url\<close>.
\<close>

theorem configured_names_counterexample:
  "process_env env_configured ''CAPTCHA_SECRET_KEY_NAME'' = Some ''/prod/captcha/secret''
   \<and> process_env env_configured ''CAPTCHA_VERIFICATION_URL_NAME'' = Some ''/prod/captcha/url''
   \<and> ssm_lookups (snd (handler env_configured event_abc))
       = [''/google/captcha_secret_key'', ''/google/google_captch_verification_url'']"
  by (simp add: run_defs scenario_defs)

text \<open>
  C9, amended. The names of the two keys are literals of the source. Every invocation
  with a non-empty token queries \<open>/google/captcha_secret_key\<close> first and, when that
  lookup succeeds, \<open>/google/google_captch_verification_url\<close> second, and no other name;
  the environment variables of the process have no influence on the run.
\<close>

theorem lookups_use_literal_names:
  "ssm_lookups (snd (handler E ev)) =
     (case authorizationToken ev of
        None \<Rightarrow> []
      | Some t \<Rightarrow>
          if t = [] then []
          else (case getParameter E ''/google/captcha_secret_key'' of
                  Inl e \<Rightarrow> [''/google/captcha_secret_key'']
                | Inr d \<Rightarrow> [''/google/captcha_secret_key'',
                            ''/google/google_captch_verification_url'']))
   \<and> handler (E\<lparr>process_env := names\<rparr>) ev = handler E ev"
proof
  show "handler (E\<lparr>process_env := names\<rparr>) ev = handler E ev"
    by (rule handler_ignores_process_env)
  show "ssm_lookups (snd (handler E ev)) =
     (case authorizationToken ev of
        None \<Rightarrow> []
      | Some t \<Rightarrow>
          if t = [] then []
          else (case getParameter E ''/google/captcha_secret_key'' of
                  Inl e \<Rightarrow> [''/google/captcha_secret_key'']
                | Inr d \<Rightarrow> [''/google/captcha_secret_key'',
                            ''/google/google_captch_verification_url'']))"
  proof (cases rule: handler_cases [where ev = ev and E = E])
    case no_token
    then show ?thesis using handler_no_token [OF no_token, of E] by auto
  next
    case (config_fails t)
    then show ?thesis using handler_config_fails [OF config_fails]
      by (simp split: sum.splits)
  next
    case (verification t secret url)
    then show ?thesis using after_config_requests(2) [OF verification] by simp
  qed
qed

text \<open>
  C10. For every secret key, endpoint value and token, \<open>verifyCaptcha\<close> makes one request,
  to the host \<open>www.google.com\<close> on port 443; the endpoint value appears in the path only,
  followed by the query string of secret and token. A run of the handler makes either no
  request or exactly this one, with the values read from the store and the token of the
  event.
\<close>

theorem verification_request_fixed_host:
  "https_requests (snd (verifyCaptcha E secret url token tr)) =
     https_requests tr @
       [\<lparr>hostname = ''www.google.com'', port = 443,
         path = url @ ''?secret='' @ secret @ ''&response='' @ token,
         http_method = ''POST'',
         headers = [(''Content-Type'', ''application/json'')]\<rparr>]
   \<and> (https_requests (snd (handler E ev)) = []
      \<or> (\<exists>t s u. authorizationToken ev = Some t
            \<and> getParameter E ''/google/captcha_secret_key'' = Inr \<lparr>Parameter = Some \<lparr>Value = s\<rparr>\<rparr>
            \<and> getParameter E ''/google/google_captch_verification_url'' = Inr \<lparr>Parameter = Some \<lparr>Value = u\<rparr>\<rparr>
            \<and> https_requests (snd (handler E ev)) =
                 [\<lparr>hostname = ''www.google.com'', port = 443,
                   path = u @ ''?secret='' @ s @ ''&response='' @ t,
                   http_method = ''POST'',
                   headers = [(''Content-Type'', ''application/json'')]\<rparr>]))"
proof
  obtain logs where L: "snd (verifyCaptcha E secret url token []) =
      Https_request (options secret url token) # map Console_log logs"
    using verifyCaptcha_effects by blast
  have "snd (verifyCaptcha E secret url token tr) = tr @ snd (verifyCaptcha E secret url token [])"
    using verifyCaptcha_split [of E secret url token tr] by simp
  then show "https_requests (snd (verifyCaptcha E secret url token tr)) =
     https_requests tr @
       [\<lparr>hostname = ''www.google.com'', port = 443,
         path = url @ ''?secret='' @ secret @ ''&response='' @ token,
         http_method = ''POST'',
         headers = [(''Content-Type'', ''application/json'')]\<rparr>]"
    using L by (simp add: https_requests_append https_requests_logs options_def)
next
  show "https_requests (snd (handler E ev)) = []
      \<or> (\<exists>t s u. authorizationToken ev = Some t
            \<and> getParameter E ''/google/captcha_secret_key'' = Inr \<lparr>Parameter = Some \<lparr>Value = s\<rparr>\<rparr>
            \<and> getParameter E ''/google/google_captch_verification_url'' = Inr \<lparr>Parameter = Some \<lparr>Value = u\<rparr>\<rparr>
            \<and> https_requests (snd (handler E ev)) =
                 [\<lparr>hostname = ''www.google.com'', port = 443,
                   path = u @ ''?secret='' @ s @ ''&response='' @ t,
                   http_method = ''POST'',
                   headers = [(''Content-Type'', ''application/json'')]\<rparr>])"
  proof (cases rule: handler_cases [where ev = ev and E = E])
    case no_token
    then show ?thesis using handler_no_token [OF no_token, of E] by simp
  next
    case (config_fails t)
    then show ?thesis using config_fails_summary(2) [OF config_fails] by simp
  next
    case (verification t secret url)
    have "https_requests (snd (handler E ev)) =
            [\<lparr>hostname = ''www.google.com'', port = 443,
              path = url @ ''?secret='' @ secret @ ''&response='' @ t,
              http_method = ''POST'',
              headers = [(''Content-Type'', ''application/json'')]\<rparr>]"
      using after_config_requests(1) [OF verification] by (simp add: options_def)
    then show ?thesis using verification by blast
  qed
qed

end
